theory Spec2Isabelle
  imports Main
begin

section \<open>The data model of \<open>driver/driver.go\<close>\<close>

text \<open>
  The package wraps the MongoDB driver. The driver itself is an external library: its
  objects are modelled by what the wrapper can observe of them, and its operations that
  talk to the server are parameters of the model (the record \<open>driver\<close> below).

  A Go pointer is an \<open>option\<close>: \<open>None\<close> is \<open>nil\<close>. A Go \<open>error\<close> is an interface
  value, so a returned error is an \<open>error option\<close>, \<open>None\<close> being \<open>nil\<close>.
\<close>

datatype error = Error string

text \<open>
  A value of type \<open>interface{}\<close> (\<open>any\<close>): \<open>nil\<close>, an error value, or any other value
  (documents, filters, updates), which the wrapper never inspects.
\<close>

datatype 'd iface = Nil | ErrVal error | Val 'd

text \<open>The driver's objects: a client, a database of a client, a collection of a database.\<close>

datatype mongo_Client = MongoClient nat

record mongo_Database =
  db_client :: mongo_Client
  db_name :: string

record mongo_Collection =
  co_database :: mongo_Database
  co_name :: string

datatype SingleResult = SingleResult nat

datatype Cursor = Cursor nat

record Credentials =
  username :: string
  password :: string

record Client =
  cl :: "mongo_Client option"
  cr :: "Credentials option"
  db :: "mongo_Database option"
  co :: "mongo_Collection option"
  u :: string

section \<open>The driver as a parameter\<close>

text \<open>
  Every operation of the driver that reaches the server takes the state of the outside
  world and returns its result with the new state of the world. Results that the wrapper
  discards (\<open>_, err := ...\<close>) are left out.
\<close>

record ('w, 'd, 'o) driver =
  mongo_Connect :: "string \<Rightarrow> 'w \<Rightarrow> (mongo_Client option \<times> error option) \<times> 'w"
  Client_Disconnect :: "mongo_Client \<Rightarrow> 'w \<Rightarrow> error option \<times> 'w"
  Client_Ping :: "mongo_Client \<Rightarrow> 'w \<Rightarrow> error option \<times> 'w"
  Collection_FindOne :: "mongo_Collection \<Rightarrow> 'd iface \<Rightarrow> 'w \<Rightarrow> SingleResult option \<times> 'w"
  Collection_Find ::
    "mongo_Collection \<Rightarrow> 'd iface \<Rightarrow> 'o option \<Rightarrow> 'w \<Rightarrow> (Cursor option \<times> error option) \<times> 'w"
  Collection_InsertOne :: "mongo_Collection \<Rightarrow> 'd iface \<Rightarrow> 'o option \<Rightarrow> 'w \<Rightarrow> error option \<times> 'w"
  Collection_UpdateOne ::
    "mongo_Collection \<Rightarrow> 'd iface \<Rightarrow> 'd iface \<Rightarrow> 'o option \<Rightarrow> 'w \<Rightarrow> error option \<times> 'w"
  Collection_DeleteOne :: "mongo_Collection \<Rightarrow> 'd iface \<Rightarrow> 'o option \<Rightarrow> 'w \<Rightarrow> error option \<times> 'w"
  Collection_DeleteMany :: "mongo_Collection \<Rightarrow> 'd iface \<Rightarrow> 'o option \<Rightarrow> 'w \<Rightarrow> error option \<times> 'w"
  Collection_ReplaceOne ::
    "mongo_Collection \<Rightarrow> 'd iface \<Rightarrow> 'd iface \<Rightarrow> 'o option \<Rightarrow> 'w \<Rightarrow> error option \<times> 'w"

text \<open>The calls made to the driver, in order: a log kept beside the world.\<close>

datatype ('d, 'o) call =
    CallConnect string
  | CallDisconnect mongo_Client
  | CallPing mongo_Client
  | CallFindOne mongo_Collection "'d iface"
  | CallFind mongo_Collection "'d iface" "'o option"
  | CallInsertOne mongo_Collection "'d iface" "'o option"
  | CallUpdateOne mongo_Collection "'d iface" "'d iface" "'o option"
  | CallDeleteOne mongo_Collection "'d iface" "'o option"
  | CallDeleteMany mongo_Collection "'d iface" "'o option"
  | CallReplaceOne mongo_Collection "'d iface" "'d iface" "'o option"

text \<open>
  The state a method runs in: the \<open>Client\<close> object behind the receiver \<open>c *Client\<close>, the
  outside world, and the log of driver calls.
\<close>

record ('w, 'd, 'o) sys =
  cli :: Client
  world :: 'w
  trace :: "('d, 'o) call list"

text \<open>
  A method either returns or panics. The wrapper calls the driver's methods through its
  pointers \<open>c.cl\<close>, \<open>c.db\<close>, \<open>c.co\<close> and reads \<open>c.cr\<close> without a check; through a \<open>nil\<close>
  pointer that is a nil dereference, which stops the method at that point.
\<close>

datatype nilref = NilCl | NilCr | NilCo

datatype 'a outcome = Returned 'a | Panicked nilref

section \<open>The methods\<close>

definition NewClient :: "string \<Rightarrow> string \<Rightarrow> string \<Rightarrow> Client" where
  "NewClient username' password' url' =
     \<lparr>cl = None,
      cr = Some \<lparr>username = username', password = password'\<rparr>,
      db = None, co = None,
      u = url'\<rparr>"

definition Connect ::
  "('w, 'd, 'o) driver \<Rightarrow> ('w, 'd, 'o) sys \<Rightarrow> error option outcome \<times> ('w, 'd, 'o) sys" where
  "Connect D s =
     (case cr (cli s) of
        None \<Rightarrow> (Panicked NilCr, s)
      | Some cred \<Rightarrow>
          (let uri = ''mongodb+srv://'' @ username cred @ '':'' @ password cred @ u (cli s);
               r = mongo_Connect D uri (world s);
               s' = s\<lparr>cli := (cli s)\<lparr>cl := fst (fst r)\<rparr>,
                       world := snd r,
                       trace := trace s @ [CallConnect uri]\<rparr>
           in (case snd (fst r) of
                 Some err \<Rightarrow> (Returned (Some err), s')
               | None \<Rightarrow> (Returned None, s'))))"

definition Disconnect ::
  "('w, 'd, 'o) driver \<Rightarrow> ('w, 'd, 'o) sys \<Rightarrow> (bool \<times> error option) outcome \<times> ('w, 'd, 'o) sys" where
  "Disconnect D s =
     (case cl (cli s) of
        None \<Rightarrow> (Panicked NilCl, s)
      | Some h \<Rightarrow>
          (let r = Client_Disconnect D h (world s);
               s' = s\<lparr>world := snd r, trace := trace s @ [CallDisconnect h]\<rparr>
           in (case fst r of
                 Some err \<Rightarrow> (Returned (False, Some err), s')
               | None \<Rightarrow> (Returned (True, None), s'))))"

definition Ping ::
  "('w, 'd, 'o) driver \<Rightarrow> ('w, 'd, 'o) sys \<Rightarrow> error option outcome \<times> ('w, 'd, 'o) sys" where
  "Ping D s =
     (case cl (cli s) of
        None \<Rightarrow> (Panicked NilCl, s)
      | Some h \<Rightarrow>
          (let r = Client_Ping D h (world s);
               s1 = s\<lparr>world := snd r, trace := trace s @ [CallPing h]\<rparr>
           in (case fst r of
                 None \<Rightarrow> (Returned None, s1)
               | Some err \<Rightarrow>
                   (case Connect D s1 of
                      (Panicked p, s2) \<Rightarrow> (Panicked p, s2)
                    | (Returned None, s2) \<Rightarrow> (Returned None, s2)
                    | (Returned (Some err'), s2) \<Rightarrow> (Returned (Some err'), s2)))))"

definition SetDatabase ::
  "string \<Rightarrow> ('w, 'd, 'o) sys \<Rightarrow> unit outcome \<times> ('w, 'd, 'o) sys" where
  "SetDatabase db_name' s =
     (case cl (cli s) of
        None \<Rightarrow> (Panicked NilCl, s)
      | Some h \<Rightarrow>
          (Returned (),
           s\<lparr>cli := (cli s)\<lparr>db := Some \<lparr>db_client = h, db_name = db_name'\<rparr>\<rparr>\<rparr>))"

definition SetCollection ::
  "string \<Rightarrow> ('w, 'd, 'o) sys \<Rightarrow> (bool \<times> error option) outcome \<times> ('w, 'd, 'o) sys" where
  "SetCollection cl_name s =
     (case db (cli s) of
        None \<Rightarrow>
          (Returned (False, Some (Error ''please set a database before setting a collection'')), s)
      | Some d \<Rightarrow>
          (Returned (True, None),
           s\<lparr>cli := (cli s)\<lparr>co := Some \<lparr>co_database = d, co_name = cl_name\<rparr>\<rparr>\<rparr>))"

definition FindOne ::
  "('w, 'd, 'o) driver \<Rightarrow> 'd iface \<Rightarrow> ('w, 'd, 'o) sys \<Rightarrow>
     SingleResult option outcome \<times> ('w, 'd, 'o) sys" where
  "FindOne D filter' s =
     (case Ping D s of
        (Panicked p, s1) \<Rightarrow> (Panicked p, s1)
      | (Returned (Some err), s1) \<Rightarrow> (Returned None, s1)
      | (Returned None, s1) \<Rightarrow>
          (case co (cli s1) of
             None \<Rightarrow> (Panicked NilCo, s1)
           | Some c \<Rightarrow>
               (let r = Collection_FindOne D c filter' (world s1);
                    s2 = s1\<lparr>world := snd r, trace := trace s1 @ [CallFindOne c filter']\<rparr>
                in (Returned (fst r), s2))))"

definition FindMany ::
  "('w, 'd, 'o) driver \<Rightarrow> 'd iface \<Rightarrow> 'o option \<Rightarrow> ('w, 'd, 'o) sys \<Rightarrow>
     Cursor option outcome \<times> ('w, 'd, 'o) sys" where
  "FindMany D filter' options s =
     (case Ping D s of
        (Panicked p, s1) \<Rightarrow> (Panicked p, s1)
      | (Returned (Some err), s1) \<Rightarrow> (Returned None, s1)
      | (Returned None, s1) \<Rightarrow>
          (case co (cli s1) of
             None \<Rightarrow> (Panicked NilCo, s1)
           | Some c \<Rightarrow>
               (let r = Collection_Find D c filter' options (world s1);
                    s2 = s1\<lparr>world := snd r,
                            trace := trace s1 @ [CallFind c filter' options]\<rparr>
                in (case snd (fst r) of
                      Some err \<Rightarrow> (Returned None, s2)
                    | None \<Rightarrow> (Returned (fst (fst r)), s2)))))"

definition InsertOne ::
  "('w, 'd, 'o) driver \<Rightarrow> 'd iface \<Rightarrow> 'o option \<Rightarrow> ('w, 'd, 'o) sys \<Rightarrow>
     'd iface outcome \<times> ('w, 'd, 'o) sys" where
  "InsertOne D object options s =
     (case Ping D s of
        (Panicked p, s1) \<Rightarrow> (Panicked p, s1)
      | (Returned (Some err), s1) \<Rightarrow> (Returned Nil, s1)
      | (Returned None, s1) \<Rightarrow>
          (case co (cli s1) of
             None \<Rightarrow> (Panicked NilCo, s1)
           | Some c \<Rightarrow>
               (let r = Collection_InsertOne D c object options (world s1);
                    s2 = s1\<lparr>world := snd r, trace := trace s1 @ [CallInsertOne c object options]\<rparr>
                in (case fst r of
                      None \<Rightarrow> (Returned object, s2)
                    | Some err \<Rightarrow>
                        (let r' = Collection_InsertOne D c object options (world s2);
                             s3 = s2\<lparr>world := snd r', trace := trace s2 @ [CallInsertOne c object options]\<rparr>
                         in (case fst r' of
                               None \<Rightarrow> (Returned object, s3)
                             | Some err' \<Rightarrow> (Returned (ErrVal err'), s3)))))))"


definition UpdateOne ::
  "('w, 'd, 'o) driver \<Rightarrow> 'd iface \<Rightarrow> 'd iface \<Rightarrow> 'o option \<Rightarrow> ('w, 'd, 'o) sys \<Rightarrow>
     SingleResult option outcome \<times> ('w, 'd, 'o) sys" where
  "UpdateOne D filter' update options s =
     (case Ping D s of
        (Panicked p, s1) \<Rightarrow> (Panicked p, s1)
      | (Returned (Some err), s1) \<Rightarrow> (Returned None, s1)
      | (Returned None, s1) \<Rightarrow>
          (case co (cli s1) of
             None \<Rightarrow> (Panicked NilCo, s1)
           | Some c \<Rightarrow>
               (let r = Collection_UpdateOne D c filter' update options (world s1);
                    s2 = s1\<lparr>world := snd r, trace := trace s1 @ [CallUpdateOne c filter' update options]\<rparr>
                in (case fst r of
                      None \<Rightarrow> FindOne D filter' s2
                    | Some err \<Rightarrow>
                        (let r' = Collection_UpdateOne D c filter' update options (world s2);
                             s3 = s2\<lparr>world := snd r', trace := trace s2 @ [CallUpdateOne c filter' update options]\<rparr>
                         in (case fst r' of
                               None \<Rightarrow> FindOne D filter' s3
                             | Some err' \<Rightarrow> (Returned None, s3)))))))"


definition RemoveOne ::
  "('w, 'd, 'o) driver \<Rightarrow> 'd iface \<Rightarrow> 'o option \<Rightarrow> ('w, 'd, 'o) sys \<Rightarrow>
     bool outcome \<times> ('w, 'd, 'o) sys" where
  "RemoveOne D filter' options s =
     (case Ping D s of
        (Panicked p, s1) \<Rightarrow> (Panicked p, s1)
      | (Returned (Some err), s1) \<Rightarrow> (Returned False, s1)
      | (Returned None, s1) \<Rightarrow>
          (case co (cli s1) of
             None \<Rightarrow> (Panicked NilCo, s1)
           | Some c \<Rightarrow>
               (let r = Collection_DeleteOne D c filter' options (world s1);
                    s2 = s1\<lparr>world := snd r, trace := trace s1 @ [CallDeleteOne c filter' options]\<rparr>
                in (case fst r of
                      None \<Rightarrow> (Returned True, s2)
                    | Some err \<Rightarrow>
                        (let r' = Collection_DeleteOne D c filter' options (world s2);
                             s3 = s2\<lparr>world := snd r', trace := trace s2 @ [CallDeleteOne c filter' options]\<rparr>
                         in (case fst r' of
                               None \<Rightarrow> (Returned True, s3)
                             | Some err' \<Rightarrow> (Returned False, s3)))))))"

definition RemoveMany ::
  "('w, 'd, 'o) driver \<Rightarrow> 'd iface \<Rightarrow> 'o option \<Rightarrow> ('w, 'd, 'o) sys \<Rightarrow>
     bool outcome \<times> ('w, 'd, 'o) sys" where
  "RemoveMany D filter' options s =
     (case Ping D s of
        (Panicked p, s1) \<Rightarrow> (Panicked p, s1)
      | (Returned (Some err), s1) \<Rightarrow> (Returned False, s1)
      | (Returned None, s1) \<Rightarrow>
          (case co (cli s1) of
             None \<Rightarrow> (Panicked NilCo, s1)
           | Some c \<Rightarrow>
               (let r = Collection_DeleteMany D c filter' options (world s1);
                    s2 = s1\<lparr>world := snd r, trace := trace s1 @ [CallDeleteMany c filter' options]\<rparr>
                in (case fst r of
                      None \<Rightarrow> (Returned True, s2)
                    | Some err \<Rightarrow>
                        (let r' = Collection_DeleteMany D c filter' options (world s2);
                             s3 = s2\<lparr>world := snd r', trace := trace s2 @ [CallDeleteMany c filter' options]\<rparr>
                         in (case fst r' of
                               None \<Rightarrow> (Returned True, s3)
                             | Some err' \<Rightarrow> (Returned False, s3)))))))"

definition ReplaceOne ::
  "('w, 'd, 'o) driver \<Rightarrow> 'd iface \<Rightarrow> 'd iface \<Rightarrow> 'o option \<Rightarrow> ('w, 'd, 'o) sys \<Rightarrow>
     SingleResult option outcome \<times> ('w, 'd, 'o) sys" where
  "ReplaceOne D filter' replacement options s =
     (case Ping D s of
        (Panicked p, s1) \<Rightarrow> (Panicked p, s1)
      | (Returned (Some err), s1) \<Rightarrow> (Returned None, s1)
      | (Returned None, s1) \<Rightarrow>
          (case co (cli s1) of
             None \<Rightarrow> (Panicked NilCo, s1)
           | Some c \<Rightarrow>
               (let r = Collection_ReplaceOne D c filter' replacement options (world s1);
                    s2 = s1\<lparr>world := snd r, trace := trace s1 @ [CallReplaceOne c filter' replacement options]\<rparr>
                in (case fst r of
                      None \<Rightarrow> FindOne D filter' s2
                    | Some err \<Rightarrow>
                        (let r' = Collection_ReplaceOne D c filter' replacement options (world s2);
                             s3 = s2\<lparr>world := snd r', trace := trace s2 @ [CallReplaceOne c filter' replacement options]\<rparr>
                         in (case fst r' of
                               None \<Rightarrow> FindOne D filter' s3
                             | Some err' \<Rightarrow> (Returned None, s3)))))))"

section \<open>Reading the log\<close>




section \<open>A scripted driver\<close>

text \<open>
  A driver to run the methods on: the world is the list of the replies still to come, one
  per call, \<open>None\<close> for success and \<open>Some e\<close> for the error \<open>e\<close>; once the list is
  used up every call succeeds. A failed connect gives no client, a successful one the
  client numbered by the replies left.
\<close>

definition reply :: "error option list \<Rightarrow> error option \<times> error option list" where
  "reply w = (case w of [] \<Rightarrow> (None, []) | r # rs \<Rightarrow> (r, rs))"

definition scripted :: "(error option list, 'd, 'o) driver" where
  "scripted =
     \<lparr>mongo_Connect = (\<lambda>uri w.
        (case reply w of
           (None, w') \<Rightarrow> ((Some (MongoClient (length w')), None), w')
         | (Some e, w') \<Rightarrow> ((None, Some e), w'))),
      Client_Disconnect = (\<lambda>h w. reply w),
      Client_Ping = (\<lambda>h w. reply w),
      Collection_FindOne = (\<lambda>c f w. (Some (SingleResult (length w)), w)),
      Collection_Find = (\<lambda>c f opts w.
        (case reply w of
           (None, w') \<Rightarrow> ((Some (Cursor (length w')), None), w')
         | (Some e, w') \<Rightarrow> ((None, Some e), w'))),
      Collection_InsertOne = (\<lambda>c x opts w. reply w),
      Collection_UpdateOne = (\<lambda>c f x opts w. reply w),
      Collection_DeleteOne = (\<lambda>c f opts w. reply w),
      Collection_DeleteMany = (\<lambda>c f opts w. reply w),
      Collection_ReplaceOne = (\<lambda>c f x opts w. reply w)\<rparr>"

text \<open>A client as \<open>NewClient\<close> returns it, before any call, in a world with the replies \<open>w\<close>.\<close>

definition fresh :: "string \<Rightarrow> string \<Rightarrow> string \<Rightarrow> 'w \<Rightarrow> ('w, 'd, 'o) sys" where
  "fresh username' password' url' w =
     \<lparr>cli = NewClient username' password' url', world = w, trace = []\<rparr>"

text \<open>
  A client that holds the connection handle numbered \<open>n\<close>, as after a successful
  \<open>Connect\<close>, with no database or collection selected yet.
\<close>

definition connected :: "nat \<Rightarrow> string \<Rightarrow> string \<Rightarrow> string \<Rightarrow> 'w \<Rightarrow> ('w, 'd, 'o) sys" where
  "connected n username' password' url' w =
     \<lparr>cli = (NewClient username' password' url')\<lparr>cl := Some (MongoClient n)\<rparr>,
      world = w, trace = []\<rparr>"

text \<open>
  A client after \<open>Connect\<close>, \<open>SetDatabase\<close> and \<open>SetCollection\<close>: the state the two
  selecting methods leave a connected client in.
\<close>

definition selected :: "string \<Rightarrow> string \<Rightarrow> 'w \<Rightarrow> ('w, 'd, 'o) sys" where
  "selected database collection w =
     snd (SetCollection collection
       (snd (SetDatabase database (connected 0 ''u'' ''p'' ''@cluster0.example.net/test'' w))))"

section \<open>What \<open>Connect\<close> and \<open>Ping\<close> do to the state\<close>


lemma Connect_with_credentials:
  "cr (cli s) = Some cred \<Longrightarrow>
   Connect D s =
     (Returned (snd (fst (mongo_Connect D
         (''mongodb+srv://'' @ username cred @ '':'' @ password cred @ u (cli s)) (world s)))),
      s\<lparr>cli := (cli s)\<lparr>cl := fst (fst (mongo_Connect D
         (''mongodb+srv://'' @ username cred @ '':'' @ password cred @ u (cli s)) (world s)))\<rparr>,
        world := snd (mongo_Connect D
         (''mongodb+srv://'' @ username cred @ '':'' @ password cred @ u (cli s)) (world s)),
        trace := trace s @
          [CallConnect (''mongodb+srv://'' @ username cred @ '':'' @ password cred @ u (cli s))]\<rparr>)"
  by (simp add: Connect_def Let_def split: option.splits)

lemma Connect_without_credentials:
  "cr (cli s) = None \<Longrightarrow> Connect D s = (Panicked NilCr, s)"
  by (simp add: Connect_def)

lemma Connect_keeps:
  "co (cli (snd (Connect D s))) = co (cli s)"
  "db (cli (snd (Connect D s))) = db (cli s)"
  "cr (cli (snd (Connect D s))) = cr (cli s)"
  "u (cli (snd (Connect D s))) = u (cli s)"
  by (cases "cr (cli s)"; simp add: Connect_with_credentials Connect_without_credentials)+


lemma Ping_without_handle:
  "cl (cli s) = None \<Longrightarrow> Ping D s = (Panicked NilCl, s)"
  by (simp add: Ping_def)

lemma Ping_with_handle:
  "cl (cli s) = Some h \<Longrightarrow>
   Ping D s =
     (if fst (Client_Ping D h (world s)) = None
      then (Returned None, s\<lparr>world := snd (Client_Ping D h (world s)), trace := trace s @ [CallPing h]\<rparr>)
      else Connect D (s\<lparr>world := snd (Client_Ping D h (world s)), trace := trace s @ [CallPing h]\<rparr>))"
  by (simp add: Ping_def Let_def split: option.splits prod.splits outcome.splits)

lemma Ping_keeps:
  "co (cli (snd (Ping D s))) = co (cli s)"
  "db (cli (snd (Ping D s))) = db (cli s)"
  "cr (cli (snd (Ping D s))) = cr (cli s)"
  "u (cli (snd (Ping D s))) = u (cli s)"
  by (cases "cl (cli s)"; simp add: Ping_with_handle Ping_without_handle Connect_keeps)+


lemma Ping_result:
  "Ping D s = (r, s1) \<Longrightarrow> co (cli s1) = co (cli s)"
  using Ping_keeps(1) [of D s] by simp

lemma selected_state:
  "selected database collection w =
     \<lparr>cli = \<lparr>cl = Some (MongoClient 0),
             cr = Some \<lparr>username = ''u'', password = ''p''\<rparr>,
             db = Some \<lparr>db_client = MongoClient 0, db_name = database\<rparr>,
             co = Some \<lparr>co_database = \<lparr>db_client = MongoClient 0, db_name = database\<rparr>,
                        co_name = collection\<rparr>,
             u = ''@cluster0.example.net/test''\<rparr>,
      world = w, trace = []\<rparr>"
  by (simp add: selected_def SetCollection_def SetDatabase_def connected_def NewClient_def)

section \<open>Ping: one reconnect attempt\<close>





section \<open>Selecting a collection needs a database\<close>

text \<open>
  Claim C2. With no database selected, \<open>SetCollection\<close> returns \<open>false\<close> and the error
  "please set a database before setting a collection" for every collection name, and the
  client is left as it was, so its collection reference stays as it was (unset, when it was
  unset). With a database selected it returns \<open>true\<close> and \<open>nil\<close>, and the collection
  reference is the collection of that name in the selected database.
\<close>

theorem SetCollection_needs_database:
  "(db (cli s) = None \<longrightarrow>
      SetCollection cl_name s =
        (Returned (False, Some (Error ''please set a database before setting a collection'')), s) \<and>
      co (cli (snd (SetCollection cl_name s))) = co (cli s)) \<and>
   (\<forall>d. db (cli s) = Some d \<longrightarrow>
      SetCollection cl_name s =
        (Returned (True, None),
         s\<lparr>cli := (cli s)\<lparr>co := Some \<lparr>co_database = d, co_name = cl_name\<rparr>\<rparr>\<rparr>))"
  by (simp add: SetCollection_def)

text \<open>
  Claim C2, on two runs: a new client, whose database and collection are unset, and a
  connected client after \<open>SetDatabase\<close>.
\<close>

theorem SetCollection_needs_database_witness:
  "db (cli (fresh ''u'' ''p'' ''@h/t'' [] :: (error option list, nat, nat) sys)) = None \<and>
   SetCollection ''items'' (fresh ''u'' ''p'' ''@h/t'' [] :: (error option list, nat, nat) sys) =
     (Returned (False, Some (Error ''please set a database before setting a collection'')),
      fresh ''u'' ''p'' ''@h/t'' []) \<and>
   co (cli (snd (SetCollection ''items''
     (fresh ''u'' ''p'' ''@h/t'' [] :: (error option list, nat, nat) sys)))) = None \<and>
   db (cli (snd (SetDatabase ''shop''
     (connected 0 ''u'' ''p'' ''@h/t'' [] :: (error option list, nat, nat) sys)))) =
     Some \<lparr>db_client = MongoClient 0, db_name = ''shop''\<rparr> \<and>
   fst (SetCollection ''items'' (snd (SetDatabase ''shop''
     (connected 0 ''u'' ''p'' ''@h/t'' [] :: (error option list, nat, nat) sys)))) =
     Returned (True, None) \<and>
   co (cli (snd (SetCollection ''items'' (snd (SetDatabase ''shop''
     (connected 0 ''u'' ''p'' ''@h/t'' [] :: (error option list, nat, nat) sys)))))) =
     Some \<lparr>co_database = \<lparr>db_client = MongoClient 0, db_name = ''shop''\<rparr>, co_name = ''items''\<rparr>"
proof -
  let ?a = "fresh ''u'' ''p'' ''@h/t'' [] :: (error option list, nat, nat) sys"
  let ?b = "snd (SetDatabase ''shop''
     (connected 0 ''u'' ''p'' ''@h/t'' [] :: (error option list, nat, nat) sys))"
  have a: "db (cli ?a) = None"
    by (simp add: fresh_def NewClient_def)
  have b: "db (cli ?b) = Some \<lparr>db_client = MongoClient 0, db_name = ''shop''\<rparr>"
    by (simp add: SetDatabase_def connected_def NewClient_def)
  show ?thesis
    using SetCollection_needs_database [of ?a "''items''"]
      SetCollection_needs_database [of ?b "''items''"] a b
    by (simp add: fresh_def NewClient_def)
qed

section \<open>InsertOne: ping, insert, one retry\<close>

text \<open>
  Claim C3. \<open>InsertOne\<close> pings first. When \<open>Ping\<close> returns an error it returns \<open>nil\<close>
  and makes no insert. Otherwise it calls the driver's insert; when that succeeds it returns
  the document it was given; when it fails it calls the insert once more, and returns the
  document when the second call succeeds and the second call's error when it fails too.
  The states \<open>s2\<close> and \<open>s3\<close> show the one and the two insert calls in the log.
\<close>

theorem InsertOne_retries_once:
  assumes "Ping D s = (Returned perr, s1)"
    and "r1 = Collection_InsertOne D c obj opts (world s1)"
    and "s2 = s1\<lparr>world := snd r1, trace := trace s1 @ [CallInsertOne c obj opts]\<rparr>"
    and "r2 = Collection_InsertOne D c obj opts (world s2)"
    and "s3 = s2\<lparr>world := snd r2, trace := trace s2 @ [CallInsertOne c obj opts]\<rparr>"
  shows "(perr \<noteq> None \<longrightarrow> InsertOne D obj opts s = (Returned Nil, s1)) \<and>
         (perr = None \<and> co (cli s1) = Some c \<and> fst r1 = None \<longrightarrow>
            InsertOne D obj opts s = (Returned obj, s2)) \<and>
         (perr = None \<and> co (cli s1) = Some c \<and> fst r1 \<noteq> None \<and> fst r2 = None \<longrightarrow>
            InsertOne D obj opts s = (Returned obj, s3)) \<and>
         (\<forall>e. perr = None \<and> co (cli s1) = Some c \<and> fst r1 \<noteq> None \<and> fst r2 = Some e \<longrightarrow>
            InsertOne D obj opts s = (Returned (ErrVal e), s3))"
  using assms by (auto simp add: InsertOne_def Let_def split: option.splits)

text \<open>
  Claim C3, on a run: the ping succeeds, the first insert times out, the retry succeeds,
  and the document comes back unchanged.
\<close>

theorem InsertOne_retries_once_witness:
  "Ping scripted (selected ''shop'' ''items'' [None, Some (Error ''timeout''), None]
       :: (error option list, nat, nat) sys) =
     (Returned None,
      (selected ''shop'' ''items'' [None, Some (Error ''timeout''), None])
        \<lparr>world := [Some (Error ''timeout''), None], trace := [CallPing (MongoClient 0)]\<rparr>) \<and>
   fst (InsertOne scripted (Val 7) None
     (selected ''shop'' ''items'' [None, Some (Error ''timeout''), None]
       :: (error option list, nat, nat) sys)) = Returned (Val 7)"
proof -
  let ?s = "selected ''shop'' ''items'' [None, Some (Error ''timeout''), None]
       :: (error option list, nat, nat) sys"
  let ?c = "\<lparr>co_database = \<lparr>db_client = MongoClient 0, db_name = ''shop''\<rparr>, co_name = ''items''\<rparr>"
  have p: "Ping scripted ?s =
     (Returned None, ?s\<lparr>world := [Some (Error ''timeout''), None], trace := [CallPing (MongoClient 0)]\<rparr>)"
    by (simp add: selected_state Ping_def scripted_def reply_def)
  show ?thesis
    using InsertOne_retries_once [OF p refl refl refl refl, where c = ?c and obj = "Val 7" and opts = None] p
    by (simp add: selected_state scripted_def reply_def)
qed

section \<open>RemoveOne and RemoveMany\<close>

text \<open>
  Claim C4. \<open>RemoveOne\<close> and \<open>RemoveMany\<close> return \<open>false\<close> when \<open>Ping\<close> returns an
  error. Otherwise they return \<open>true\<close> exactly when the first delete, or else the one
  retried delete, returns no error. A failed ping and two failed deletes both give
  \<open>false\<close> and nothing else.
\<close>

theorem Remove_true_iff_deleted:
  assumes "Ping D s = (Returned perr, s1)"
    and "r1 = Collection_DeleteOne D c f opts (world s1)"
    and "s2 = s1\<lparr>world := snd r1, trace := trace s1 @ [CallDeleteOne c f opts]\<rparr>"
    and "r2 = Collection_DeleteOne D c f opts (world s2)"
    and "s3 = s2\<lparr>world := snd r2, trace := trace s2 @ [CallDeleteOne c f opts]\<rparr>"
    and "m1 = Collection_DeleteMany D c f opts (world s1)"
    and "t2 = s1\<lparr>world := snd m1, trace := trace s1 @ [CallDeleteMany c f opts]\<rparr>"
    and "m2 = Collection_DeleteMany D c f opts (world t2)"
    and "t3 = t2\<lparr>world := snd m2, trace := trace t2 @ [CallDeleteMany c f opts]\<rparr>"
  shows "(perr \<noteq> None \<longrightarrow>
            RemoveOne D f opts s = (Returned False, s1) \<and>
            RemoveMany D f opts s = (Returned False, s1)) \<and>
         (perr = None \<and> co (cli s1) = Some c \<longrightarrow>
            RemoveOne D f opts s =
              (if fst r1 = None then (Returned True, s2) else (Returned (fst r2 = None), s3)) \<and>
            RemoveMany D f opts s =
              (if fst m1 = None then (Returned True, t2) else (Returned (fst m2 = None), t3)) \<and>
            fst (RemoveOne D f opts s) = Returned (fst r1 = None \<or> fst r2 = None) \<and>
            fst (RemoveMany D f opts s) = Returned (fst m1 = None \<or> fst m2 = None))"
  using assms by (auto simp add: RemoveOne_def RemoveMany_def Let_def split: option.splits)

text \<open>
  Claim C4, on two runs: two failed deletes after a good ping, and a failed ping with a
  failed reconnect. Both return \<open>false\<close>.
\<close>

theorem Remove_true_iff_deleted_witness:
  "Ping scripted (selected ''shop'' ''items'' [None, Some (Error ''a''), Some (Error ''b'')]
       :: (error option list, nat, nat) sys) =
     (Returned None,
      (selected ''shop'' ''items'' [None, Some (Error ''a''), Some (Error ''b'')])
        \<lparr>world := [Some (Error ''a''), Some (Error ''b'')], trace := [CallPing (MongoClient 0)]\<rparr>) \<and>
   fst (RemoveOne scripted (Val 7) None
     (selected ''shop'' ''items'' [None, Some (Error ''a''), Some (Error ''b'')]
       :: (error option list, nat, nat) sys)) = Returned False \<and>
   fst (RemoveMany scripted (Val 7) None
     (selected ''shop'' ''items'' [None, Some (Error ''a''), Some (Error ''b'')]
       :: (error option list, nat, nat) sys)) = Returned False \<and>
   fst (Ping scripted (selected ''shop'' ''items'' [Some (Error ''ping''), Some (Error ''dial'')]
       :: (error option list, nat, nat) sys)) = Returned (Some (Error ''dial'')) \<and>
   fst (RemoveOne scripted (Val 7) None
     (selected ''shop'' ''items'' [Some (Error ''ping''), Some (Error ''dial'')]
       :: (error option list, nat, nat) sys)) = Returned False \<and>
   fst (RemoveMany scripted (Val 7) None
     (selected ''shop'' ''items'' [Some (Error ''ping''), Some (Error ''dial'')]
       :: (error option list, nat, nat) sys)) = Returned False"
proof -
  let ?t = "selected ''shop'' ''items'' [Some (Error ''ping''), Some (Error ''dial'')]
       :: (error option list, nat, nat) sys"
  obtain t1 where q: "Ping scripted ?t = (Returned (Some (Error ''dial'')), t1)"
    by (simp add: selected_state Ping_def Connect_def scripted_def reply_def)
  let ?s = "selected ''shop'' ''items'' [None, Some (Error ''a''), Some (Error ''b'')]
       :: (error option list, nat, nat) sys"
  let ?c = "\<lparr>co_database = \<lparr>db_client = MongoClient 0, db_name = ''shop''\<rparr>, co_name = ''items''\<rparr>"
  have p: "Ping scripted ?s =
     (Returned None, ?s\<lparr>world := [Some (Error ''a''), Some (Error ''b'')], trace := [CallPing (MongoClient 0)]\<rparr>)"
    by (simp add: selected_state Ping_def scripted_def reply_def)
  show ?thesis
    using Remove_true_iff_deleted [OF p refl refl refl refl refl refl refl refl,
        where c = ?c and f = "Val 7" and opts = None]
      Remove_true_iff_deleted [OF q refl refl refl refl refl refl refl refl,
        where c = ?c and f = "Val 7" and opts = None] p q
    by (simp add: selected_state scripted_def reply_def)
qed

section \<open>UpdateOne and ReplaceOne return what FindOne returns\<close>

text \<open>
  Claim C5. When the update (the first call, or the retry after a failed first call)
  succeeds, what \<open>UpdateOne\<close> returns is what \<open>FindOne\<close> with the same filter returns in
  the state right after that update; the same for \<open>ReplaceOne\<close> and the replacement.
\<close>

theorem Update_Replace_return_FindOne:
  assumes "Ping D s = (Returned None, s1)"
    and "co (cli s1) = Some c"
    and "r1 = Collection_UpdateOne D c f x opts (world s1)"
    and "s2 = s1\<lparr>world := snd r1, trace := trace s1 @ [CallUpdateOne c f x opts]\<rparr>"
    and "r2 = Collection_UpdateOne D c f x opts (world s2)"
    and "s3 = s2\<lparr>world := snd r2, trace := trace s2 @ [CallUpdateOne c f x opts]\<rparr>"
    and "m1 = Collection_ReplaceOne D c f x opts (world s1)"
    and "t2 = s1\<lparr>world := snd m1, trace := trace s1 @ [CallReplaceOne c f x opts]\<rparr>"
    and "m2 = Collection_ReplaceOne D c f x opts (world t2)"
    and "t3 = t2\<lparr>world := snd m2, trace := trace t2 @ [CallReplaceOne c f x opts]\<rparr>"
  shows "(fst r1 = None \<longrightarrow> UpdateOne D f x opts s = FindOne D f s2) \<and>
         (fst r1 \<noteq> None \<and> fst r2 = None \<longrightarrow> UpdateOne D f x opts s = FindOne D f s3) \<and>
         (fst m1 = None \<longrightarrow> ReplaceOne D f x opts s = FindOne D f t2) \<and>
         (fst m1 \<noteq> None \<and> fst m2 = None \<longrightarrow> ReplaceOne D f x opts s = FindOne D f t3)"
  using assms by (auto simp add: UpdateOne_def ReplaceOne_def Let_def split: option.splits)

text \<open>
  Claim C5, on a run: the first update fails, the retry succeeds, and \<open>UpdateOne\<close> is
  \<open>FindOne\<close> in the state with the ping and the two update calls in the log.
\<close>

theorem Update_Replace_return_FindOne_witness:
  "Ping scripted (selected ''shop'' ''items'' [None, Some (Error ''a''), None]
       :: (error option list, nat, nat) sys) =
     (Returned None,
      (selected ''shop'' ''items'' [None, Some (Error ''a''), None])
        \<lparr>world := [Some (Error ''a''), None], trace := [CallPing (MongoClient 0)]\<rparr>) \<and>
   UpdateOne scripted (Val 1) (Val 2) None
     (selected ''shop'' ''items'' [None, Some (Error ''a''), None]
       :: (error option list, nat, nat) sys) =
   FindOne scripted (Val 1)
     ((selected ''shop'' ''items'' [])
        \<lparr>trace := [CallPing (MongoClient 0),
           CallUpdateOne \<lparr>co_database = \<lparr>db_client = MongoClient 0, db_name = ''shop''\<rparr>,
             co_name = ''items''\<rparr> (Val 1) (Val 2) None,
           CallUpdateOne \<lparr>co_database = \<lparr>db_client = MongoClient 0, db_name = ''shop''\<rparr>,
             co_name = ''items''\<rparr> (Val 1) (Val 2) None]\<rparr>)"
proof -
  let ?s = "selected ''shop'' ''items'' [None, Some (Error ''a''), None]
       :: (error option list, nat, nat) sys"
  let ?c = "\<lparr>co_database = \<lparr>db_client = MongoClient 0, db_name = ''shop''\<rparr>, co_name = ''items''\<rparr>"
  have p: "Ping scripted ?s =
     (Returned None, ?s\<lparr>world := [Some (Error ''a''), None], trace := [CallPing (MongoClient 0)]\<rparr>)"
    by (simp add: selected_state Ping_def scripted_def reply_def)
  have c: "co (cli (?s\<lparr>world := [Some (Error ''a''), None], trace := [CallPing (MongoClient 0)]\<rparr>)) = Some ?c"
    by (simp add: selected_state)
  show ?thesis
    using Update_Replace_return_FindOne [OF p c refl refl refl refl refl refl refl refl,
        where f = "Val 1" and x = "Val 2" and opts = None] p
    by (simp add: selected_state scripted_def reply_def)
qed

section \<open>The connection string\<close>

text \<open>
  Claim C6. For a client built by \<open>NewClient\<close> from a user name, a password and a url
  suffix, whatever its handle, database and collection are by now, \<open>Connect\<close> calls the
  driver with the string \<open>mongodb+srv://\<close>, the user name, \<open>:\<close>, the password and the
  suffix, in this order, and with nothing else; for \<open>u\<close>, \<open>p\<close> and
  \<open>@cluster0.example.net/test\<close> that is \<open>mongodb+srv://u:p@cluster0.example.net/test\<close>.
\<close>

theorem Connect_connection_string:
  "Connect D (s\<lparr>cli := (NewClient user pass suffix)\<lparr>cl := h, db := d, co := c\<rparr>\<rparr>) =
     (Returned (snd (fst (mongo_Connect D (''mongodb+srv://'' @ user @ '':'' @ pass @ suffix) (world s)))),
      s\<lparr>cli := (NewClient user pass suffix)
              \<lparr>cl := fst (fst (mongo_Connect D (''mongodb+srv://'' @ user @ '':'' @ pass @ suffix) (world s))),
               db := d, co := c\<rparr>,
        world := snd (mongo_Connect D (''mongodb+srv://'' @ user @ '':'' @ pass @ suffix) (world s)),
        trace := trace s @ [CallConnect (''mongodb+srv://'' @ user @ '':'' @ pass @ suffix)]\<rparr>) \<and>
   trace (snd (Connect D (fresh ''u'' ''p'' ''@cluster0.example.net/test'' w))) =
     [CallConnect ''mongodb+srv://u:p@cluster0.example.net/test'']"
  by (simp add: Connect_def NewClient_def fresh_def Let_def split: option.splits)

section \<open>InsertMany and UpdateMany\<close>



section \<open>CRUD methods on an unset collection\<close>

text \<open>
  Claim C8. On a client whose collection reference is \<open>nil\<close>, whenever \<open>Ping\<close> returns
  \<open>nil\<close>, each of \<open>FindOne\<close>, \<open>FindMany\<close>, \<open>InsertOne\<close>, \<open>UpdateOne\<close>, \<open>RemoveOne\<close>,
  \<open>RemoveMany\<close> and \<open>ReplaceOne\<close> goes on to the call through \<open>c.co\<close> and stops there
  with a nil dereference, in the state \<open>Ping\<close> left: no value is returned.
\<close>

theorem unset_collection_panics:
  assumes "co (cli s) = None"
    and "Ping D s = (Returned None, s1)"
  shows "FindOne D f s = (Panicked NilCo, s1) \<and>
         FindMany D f opts s = (Panicked NilCo, s1) \<and>
         InsertOne D x opts s = (Panicked NilCo, s1) \<and>
         UpdateOne D f x opts s = (Panicked NilCo, s1) \<and>
         RemoveOne D f opts s = (Panicked NilCo, s1) \<and>
         RemoveMany D f opts s = (Panicked NilCo, s1) \<and>
         ReplaceOne D f x opts s = (Panicked NilCo, s1)"
proof -
  have "co (cli s1) = None"
    using Ping_result [OF assms(2)] assms(1) by simp
  then show ?thesis
    using assms(2)
    by (simp add: FindOne_def FindMany_def InsertOne_def UpdateOne_def RemoveOne_def
        RemoveMany_def ReplaceOne_def)
qed

text \<open>
  Claim C8, on a run: a connected client with no collection selected, a good ping.
\<close>

theorem unset_collection_panics_witness:
  "co (cli (connected 0 ''u'' ''p'' ''@h/t'' [None] :: (error option list, nat, nat) sys)) = None \<and>
   Ping scripted (connected 0 ''u'' ''p'' ''@h/t'' [None] :: (error option list, nat, nat) sys) =
     (Returned None,
      (connected 0 ''u'' ''p'' ''@h/t'' [])\<lparr>trace := [CallPing (MongoClient 0)]\<rparr>) \<and>
   FindOne scripted (Val 1)
     (connected 0 ''u'' ''p'' ''@h/t'' [None] :: (error option list, nat, nat) sys) =
     (Panicked NilCo, (connected 0 ''u'' ''p'' ''@h/t'' [])\<lparr>trace := [CallPing (MongoClient 0)]\<rparr>) \<and>
   RemoveOne scripted (Val 1) None
     (connected 0 ''u'' ''p'' ''@h/t'' [None] :: (error option list, nat, nat) sys) =
     (Panicked NilCo, (connected 0 ''u'' ''p'' ''@h/t'' [])\<lparr>trace := [CallPing (MongoClient 0)]\<rparr>)"
proof -
  let ?s = "connected 0 ''u'' ''p'' ''@h/t'' [None] :: (error option list, nat, nat) sys"
  have c: "co (cli ?s) = None"
    by (simp add: connected_def NewClient_def)
  have p: "Ping scripted ?s =
     (Returned None, (connected 0 ''u'' ''p'' ''@h/t'' [])\<lparr>trace := [CallPing (MongoClient 0)]\<rparr>)"
    by (simp add: connected_def NewClient_def Ping_def scripted_def reply_def)
  show ?thesis
    using unset_collection_panics [OF c p, of "Val 1" None "Val 1"] c p
    by simp
qed

section \<open>SetDatabase\<close>

text \<open>
  Claim C9, as stated, fails on a client that has no connection handle: on the client
  \<open>NewClient\<close> returns, \<open>SetDatabase\<close> calls \<open>Database\<close> through the \<open>nil\<close> pointer
  \<open>c.cl\<close> and does not return.
\<close>

theorem SetDatabase_panics_without_handle:
  "SetDatabase ''shop'' (fresh ''u'' ''p'' ''@h/t'' [] :: (error option list, nat, nat) sys) =
     (Panicked NilCl, fresh ''u'' ''p'' ''@h/t'' [])"
  by (simp add: SetDatabase_def fresh_def NewClient_def)

text \<open>
  Claim C9, amended. \<open>SetDatabase\<close> leaves the collection reference, the handle, the
  credentials, the url suffix, the world and the log as they were, on every client and
  for every name. On a client that holds a connection handle it returns, and the only
  change is that the database reference is the database of that name. So when a
  collection of a database with another name was selected, it is still selected
  afterwards, and it is not a collection of the database now selected.
\<close>

theorem SetDatabase_frame:
  "co (cli (snd (SetDatabase name s))) = co (cli s) \<and>
   cl (cli (snd (SetDatabase name s))) = cl (cli s) \<and>
   cr (cli (snd (SetDatabase name s))) = cr (cli s) \<and>
   u (cli (snd (SetDatabase name s))) = u (cli s) \<and>
   world (snd (SetDatabase name s)) = world s \<and>
   trace (snd (SetDatabase name s)) = trace s \<and>
   (\<forall>h. cl (cli s) = Some h \<longrightarrow>
      SetDatabase name s =
        (Returned (), s\<lparr>cli := (cli s)\<lparr>db := Some \<lparr>db_client = h, db_name = name\<rparr>\<rparr>\<rparr>)) \<and>
   (\<forall>h c. cl (cli s) = Some h \<and> co (cli s) = Some c \<and> db_name (co_database c) \<noteq> name \<longrightarrow>
      co (cli (snd (SetDatabase name s))) = Some c \<and>
      db (cli (snd (SetDatabase name s))) = Some \<lparr>db_client = h, db_name = name\<rparr> \<and>
      db (cli (snd (SetDatabase name s))) \<noteq> Some (co_database c))"
  by (auto simp add: SetDatabase_def split: option.splits dest: arg_cong [where f = db_name])

text \<open>
  Claim C9, on a run: with \<open>items\<close> of \<open>shop\<close> selected, \<open>SetDatabase\<close> to \<open>archive\<close>
  leaves the collection \<open>items\<close> of \<open>shop\<close>.
\<close>

theorem SetDatabase_frame_witness:
  "cl (cli (selected ''shop'' ''items'' [] :: (error option list, nat, nat) sys)) =
     Some (MongoClient 0) \<and>
   fst (SetDatabase ''archive'' (selected ''shop'' ''items'' [] :: (error option list, nat, nat) sys)) =
     Returned () \<and>
   db (cli (snd (SetDatabase ''archive''
     (selected ''shop'' ''items'' [] :: (error option list, nat, nat) sys)))) =
     Some \<lparr>db_client = MongoClient 0, db_name = ''archive''\<rparr> \<and>
   co (cli (snd (SetDatabase ''archive''
     (selected ''shop'' ''items'' [] :: (error option list, nat, nat) sys)))) =
     Some \<lparr>co_database = \<lparr>db_client = MongoClient 0, db_name = ''shop''\<rparr>, co_name = ''items''\<rparr>"
proof -
  let ?s = "selected ''shop'' ''items'' [] :: (error option list, nat, nat) sys"
  have h: "cl (cli ?s) = Some (MongoClient 0)"
    by (simp add: selected_state)
  show ?thesis
    using SetDatabase_frame [of "''archive''" ?s] h
    by (simp add: selected_state)
qed

section \<open>Connect assigns the handle before it checks the error\<close>

text \<open>
  Claim C10. \<open>Connect\<close> stores the client the driver returned in \<open>c.cl\<close> whatever the
  error is: after \<open>Connect\<close>, also when it returns an error, the handle is the driver's
  result and no longer the one held before. A \<open>Ping\<close> whose ping fails returns what the
  reconnect returns and leaves the handle the reconnect stored, also when it failed.
\<close>

theorem Connect_overwrites_handle:
  assumes "cr (cli s) = Some cred"
    and "uri = ''mongodb+srv://'' @ username cred @ '':'' @ password cred @ u (cli s)"
  shows "fst (Connect D s) = Returned (snd (fst (mongo_Connect D uri (world s)))) \<and>
         cl (cli (snd (Connect D s))) = fst (fst (mongo_Connect D uri (world s))) \<and>
         (\<forall>h. cl (cli s) = Some h \<and> fst (Client_Ping D h (world s)) \<noteq> None \<longrightarrow>
            fst (Ping D s) =
              Returned (snd (fst (mongo_Connect D uri (snd (Client_Ping D h (world s)))))) \<and>
            cl (cli (snd (Ping D s))) =
              fst (fst (mongo_Connect D uri (snd (Client_Ping D h (world s))))))"
  using assms by (auto simp add: Ping_with_handle Connect_with_credentials)

text \<open>
  Claim C10, on two runs of a client holding the handle 0: a failed \<open>Connect\<close>, and a
  \<open>Ping\<close> whose ping and reconnect fail. Both return the error and leave no handle.
\<close>

theorem Connect_overwrites_handle_witness:
  "cr (cli (connected 0 ''u'' ''p'' ''@h/t'' [Some (Error ''ping''), Some (Error ''dial'')]
       :: (error option list, nat, nat) sys)) = Some \<lparr>username = ''u'', password = ''p''\<rparr> \<and>
   cl (cli (connected 0 ''u'' ''p'' ''@h/t'' [Some (Error ''ping''), Some (Error ''dial'')]
       :: (error option list, nat, nat) sys)) = Some (MongoClient 0) \<and>
   fst (Connect scripted (connected 0 ''u'' ''p'' ''@h/t'' [Some (Error ''dial'')]
       :: (error option list, nat, nat) sys)) = Returned (Some (Error ''dial'')) \<and>
   cl (cli (snd (Connect scripted (connected 0 ''u'' ''p'' ''@h/t'' [Some (Error ''dial'')]
       :: (error option list, nat, nat) sys)))) = None \<and>
   fst (Ping scripted (connected 0 ''u'' ''p'' ''@h/t'' [Some (Error ''ping''), Some (Error ''dial'')]
       :: (error option list, nat, nat) sys)) = Returned (Some (Error ''dial'')) \<and>
   cl (cli (snd (Ping scripted (connected 0 ''u'' ''p'' ''@h/t'' [Some (Error ''ping''), Some (Error ''dial'')]
       :: (error option list, nat, nat) sys)))) = None"
proof -
  let ?a = "connected 0 ''u'' ''p'' ''@h/t'' [Some (Error ''dial'')]
       :: (error option list, nat, nat) sys"
  let ?b = "connected 0 ''u'' ''p'' ''@h/t'' [Some (Error ''ping''), Some (Error ''dial'')]
       :: (error option list, nat, nat) sys"
  have a: "cr (cli ?a) = Some \<lparr>username = ''u'', password = ''p''\<rparr>"
    by (simp add: connected_def NewClient_def)
  have b: "cr (cli ?b) = Some \<lparr>username = ''u'', password = ''p''\<rparr>"
    by (simp add: connected_def NewClient_def)
  have h: "cl (cli ?b) = Some (MongoClient 0)"
    by (simp add: connected_def NewClient_def)
  show ?thesis
    using Connect_overwrites_handle [OF a refl, of scripted]
      Connect_overwrites_handle [OF b refl, of scripted] b h
    by (simp add: connected_def NewClient_def scripted_def reply_def)
qed

end
